theory Spec2Isabelle
  imports Main "HOL-Library.Word"
begin

unbundle bit_operations_syntax

section \<open>SoLoud Nintendo 3DS homebrew output backend\<close>

text \<open>
  A shallow embedding of \<^verbatim>\<open>src/backend/n3ds_homebrew/soloud_n3ds_homebrew.cpp\<close>
  (the branch compiled with \<^verbatim>\<open>WITH_N3DS_HOMEBREW\<close>).

  The target is the 32-bit ARM11 of the 3DS: \<^verbatim>\<open>unsigned int\<close>, \<^verbatim>\<open>size_t\<close>,
  \<^verbatim>\<open>int32_t\<close> and every pointer are 32-bit words. Unsigned arithmetic wraps around;
  the one signed subtraction of the file (\<^verbatim>\<open>priority -= 1\<close>) is modelled as the
  two's complement subtraction the processor performs. The null pointer is the word 0.

  Memory is a typed store: the session records and the hardware buffer descriptors live
  in two partial maps from addresses to records. An access through a pointer that holds
  no object of the right type is a fault, and the function stops there. So is a call of
  \<^verbatim>\<open>free\<close> with an address that is neither null nor a block of the C heap. Sample
  memory is not modelled: the mixer and the DSP are external, and the code itself never
  reads or writes a sample.

  Every call that leaves the file (NDSP, libctru, the C library, the engine's methods) and
  every store to the atomic flag and to the engine's \<^verbatim>\<open>mBackendData\<close> is recorded, in
  program order, in a list of actions.
\<close>

type_synonym u32 = "32 word"
type_synonym s32 = "32 word"
type_synonym u64 = "64 word"

subsection \<open>Data\<close>

text \<open>
  Modelled from the spec: the descriptor type \<^verbatim>\<open>ndspWaveBuf\<close> is declared in the
  platform header \<^verbatim>\<open>3ds.h\<close>, which is not part of the repository. The spec describes it
  as a record pairing one memory region with a sample count and a status
  (free / queued / done). The code names the region \<^verbatim>\<open>data_vaddr\<close> when it writes it
  and when it renders, and \<^verbatim>\<open>data_pcm16\<close> when it flushes: both are the one region
  of the descriptor.
\<close>

datatype wbuf_status = NDSP_WBUF_FREE | NDSP_WBUF_QUEUED | NDSP_WBUF_DONE

record ndspWaveBuf =
  data_vaddr :: u32
  nsamples :: u32
  status :: wbuf_status

text \<open>
  \<^verbatim>\<open>struct N3Data\<close>. The light event is its state: signalled or not. The member
  \<^verbatim>\<open>done\<close> is \<open>done_flag\<close> here. \<^verbatim>\<open>wavebufs\<close> is an array of two pointers to
  descriptors, not of descriptors.
\<close>

record N3Data =
  event :: bool
  done_flag :: bool
  samplesPerWavebuf :: u32
  numChannels :: u32
  soloud :: u32
  tid :: u32
  audioBuffer :: u32
  wavebufs :: "u32 \<times> u32"

text \<open>
  Modelled from the spec: the class \<^verbatim>\<open>Soloud\<close> is declared in \<^verbatim>\<open>soloud.h\<close>, which
  is not among the sources. The spec describes the one mutable slot on the engine object
  that holds the session and the registered cleanup entry point; these are the two members
  the backend stores to. The engine's methods \<^verbatim>\<open>mixSigned16\<close> and
  \<^verbatim>\<open>postinit_internal\<close> are recorded as actions.
\<close>

datatype cleanup_func = N3ds_cleanup

record Soloud =
  mBackendData :: u32
  mBackendCleanupFunc :: "cleanup_func option"

text \<open>
  The world: the engine, the two stores, and the addresses of the blocks of the C heap,
  the ones \<^verbatim>\<open>malloc\<close> has handed out and \<^verbatim>\<open>free\<close> takes back. The file never
  calls \<^verbatim>\<open>malloc\<close>.
\<close>

record world =
  engine :: Soloud
  sessions :: "u32 \<rightharpoonup> N3Data"
  wavebuf_objs :: "u32 \<rightharpoonup> ndspWaveBuf"
  malloc_blocks :: "u32 set"

datatype ndsp_const = NDSP_OUTPUT_STEREO | NDSP_INTERP_POLYPHASE | NDSP_FORMAT_STEREO_PCM16

text \<open>
  The actions. \<^verbatim>\<open>NdspChnWaveBufAdd c i p wb\<close> is \<^verbatim>\<open>ndspChnWaveBufAdd(c, p)\<close> where
  \<^verbatim>\<open>p\<close> was read from \<^verbatim>\<open>data->wavebufs[i]\<close> and \<^verbatim>\<open>wb\<close> is the descriptor the
  callee finds behind \<^verbatim>\<open>p\<close>. \<^verbatim>\<open>Free_wavebufs a\<close> is the call
  \<^verbatim>\<open>free(data->wavebufs)\<close> for the session at \<^verbatim>\<open>a\<close>, \<^verbatim>\<open>Free p\<close> the call
  \<^verbatim>\<open>free(p)\<close>; a call is recorded when it is made, whether it returns or not.
\<close>

datatype action =
    NdspInit
  | NdspChnReset int
  | NdspSetOutputMode ndsp_const
  | NdspChnSetInterp int ndsp_const
  | NdspChnSetRate int u32
  | NdspChnSetFormat int ndsp_const
  | New_N3Data u32
  | LinearAlloc u32
  | Postinit_internal u32 u32 u32 u32
  | NdspSetCallback u32
  | SvcGetThreadPriority
  | ThreadCreate u32 u32 s32 s32 bool
  | Store_done u32
  | Store_mBackendData u32
  | LightEvent_Signal u32
  | LightEvent_Wait u32
  | ThreadJoin u32 u64
  | Free_wavebufs u32
  | Free u32
  | Delete_N3Data u32
  | MixSigned16 u32 u32 u32
  | NdspChnWaveBufAdd int int u32 ndspWaveBuf
  | DSP_FlushDataCache u32 u32

text \<open>
  What the file passes to \<^verbatim>\<open>free\<close>: the value of a pointer, or
  \<^verbatim>\<open>data->wavebufs\<close>, which is the array member of the session record at the given
  address (the array decays to the address of its first element, inside the record).
\<close>

datatype cptr = Addr u32 | Wavebufs_member u32

datatype fault = InvalidDeref u32 | OutOfBounds int | InvalidFree cptr

text \<open>
  The result codes the file returns: the literal 0 of line 187, and the two error codes of
  \<^verbatim>\<open>soloud.h\<close>, the spec's \<^verbatim>\<open>InvalidConfiguration\<close> and \<^verbatim>\<open>HardwareUnavailable\<close>.
\<close>

datatype result = SO_NO_ERROR | INVALID_PARAMETER | UNKNOWN_ERROR

text \<open>Calls into the hardware audio subsystem.\<close>

fun is_ndsp_call :: "action \<Rightarrow> bool" where
  "is_ndsp_call NdspInit = True"
| "is_ndsp_call (NdspChnReset _) = True"
| "is_ndsp_call (NdspSetOutputMode _) = True"
| "is_ndsp_call (NdspChnSetInterp _ _) = True"
| "is_ndsp_call (NdspChnSetRate _ _) = True"
| "is_ndsp_call (NdspChnSetFormat _ _) = True"
| "is_ndsp_call (NdspSetCallback _) = True"
| "is_ndsp_call (NdspChnWaveBufAdd _ _ _ _) = True"
| "is_ndsp_call (DSP_FlushDataCache _ _) = True"
| "is_ndsp_call _ = False"

text \<open>Memory management calls: allocations, and the calls that release.\<close>

fun is_alloc :: "action \<Rightarrow> bool" where
  "is_alloc (New_N3Data _) = True"
| "is_alloc (LinearAlloc _) = True"
| "is_alloc _ = False"

fun is_release :: "action \<Rightarrow> bool" where
  "is_release (Free_wavebufs _) = True"
| "is_release (Free _) = True"
| "is_release (Delete_N3Data _) = True"
| "is_release _ = False"

text \<open>Releases, and the store that clears the engine's reference to the session.\<close>

fun is_teardown :: "action \<Rightarrow> bool" where
  "is_teardown (Store_mBackendData p) = (p = 0)"
| "is_teardown x = is_release x"


fun is_join :: "action \<Rightarrow> bool" where
  "is_join (ThreadJoin _ _) = True"
| "is_join _ = False"

subsection \<open>The light event\<close>

text \<open>
  Modelled from the spec: \<^verbatim>\<open>LightEvent_Signal\<close> is libctru's. The spec's wake signal is
  a binary object; signalling it sets it, and signalling a set event changes nothing.
\<close>

definition signalWake :: "N3Data \<Rightarrow> N3Data" where
  "signalWake d = d\<lparr>event := True\<rparr>"

subsection \<open>The completion callback\<close>

text \<open>
  \<^verbatim>\<open>n3ds_audioCallback(data_)\<close>: the argument is the address registered with
  \<^verbatim>\<open>ndspSetCallback\<close>. A run returns the outcome, the world it leaves and its actions.
\<close>

definition n3ds_audioCallback :: "u32 \<Rightarrow> world \<Rightarrow> (fault + unit) \<times> world \<times> action list" where
  "n3ds_audioCallback a w =
     (case sessions w a of
        None \<Rightarrow> (Inl (InvalidDeref a), w, [])
      | Some d \<Rightarrow>
          if done_flag d then (Inr (), w, [])
          else (Inr (), w\<lparr>sessions := (sessions w)(a \<mapsto> signalWake d)\<rparr>, [LightEvent_Signal a]))"

subsection \<open>Shutdown\<close>

text \<open>
  \<^verbatim>\<open>free\<close>, on the set of heap blocks. A null pointer is accepted and nothing happens;
  a heap block is given back; anything else is a fault. The array member of a session
  record lies inside the record, behind its other members: it is never a heap block.
\<close>

fun c_free :: "u32 set \<Rightarrow> cptr \<Rightarrow> fault + u32 set" where
  "c_free blocks (Wavebufs_member a) = Inl (InvalidFree (Wavebufs_member a))"
| "c_free blocks (Addr p) =
     (if p = 0 then Inr blocks
      else if p \<in> blocks then Inr (blocks - {p})
      else Inl (InvalidFree (Addr p)))"

text \<open>
  \<^verbatim>\<open>n3ds_cleanup(aSoloud)\<close>. \<^verbatim>\<open>threadJoin\<close> is recorded with its timeout
  \<^verbatim>\<open>UINT64_MAX\<close>; the model continues after it, as the code does once the call returns.
  Line 94 frees \<^verbatim>\<open>data->wavebufs\<close>, line 95 \<^verbatim>\<open>data->audioBuffer\<close>.
  \<^verbatim>\<open>delete data\<close> removes the session from the store.
\<close>

definition UINT64_MAX :: u64 where
  "UINT64_MAX = - 1"

definition n3ds_cleanup :: "world \<Rightarrow> (fault + unit) \<times> world \<times> action list" where
  "n3ds_cleanup w =
     (let data = mBackendData (engine w) in
      if data = 0 then (Inr (), w, [])
      else
        (case sessions w data of
           None \<Rightarrow> (Inl (InvalidDeref data), w, [])
         | Some d \<Rightarrow>
             (let w1 = w\<lparr>sessions := (sessions w)(data \<mapsto> signalWake (d\<lparr>done_flag := True\<rparr>))\<rparr>;
                  acts = [Store_done data, LightEvent_Signal data,
                          ThreadJoin (tid d) UINT64_MAX, Free_wavebufs data]
              in case c_free (malloc_blocks w1) (Wavebufs_member data) of
                   Inl f \<Rightarrow> (Inl f, w1, acts)
                 | Inr m1 \<Rightarrow>
                     (case c_free m1 (Addr (audioBuffer d)) of
                        Inl f \<Rightarrow> (Inl f, w1\<lparr>malloc_blocks := m1\<rparr>, acts @ [Free (audioBuffer d)])
                      | Inr m2 \<Rightarrow>
                          (let w2 = w1\<lparr>malloc_blocks := m2\<rparr>;
                               w3 = w2\<lparr>sessions := (sessions w2)(data := None)\<rparr>;
                               w4 = w3\<lparr>engine := (engine w3)\<lparr>mBackendData := 0\<rparr>\<rparr>
                           in (Inr (), w4,
                               acts @ [Free (audioBuffer d), Delete_N3Data data,
                                       Store_mBackendData 0]))))))"

subsection \<open>The producer thread\<close>

text \<open>\<^verbatim>\<open>data->wavebufs[buf_id]\<close>: an array of two pointers.\<close>

definition wavebufs_at :: "N3Data \<Rightarrow> int \<Rightarrow> fault + u32" where
  "wavebufs_at d i =
     (if i = 0 then Inr (fst (wavebufs d))
      else if i = 1 then Inr (snd (wavebufs d))
      else Inl (OutOfBounds i))"

text \<open>
  One pass through the loop body, lines 107 to 115: the descriptor pointer is read, the
  mixer renders into the descriptor's region, the sample count is stored, the descriptor is
  queued, the region is flushed. \<^verbatim>\<open>sizeof(int16_t)\<close> is 2. The first access through
  the descriptor pointer comes before the first call, so a faulting pass has no action.
\<close>

definition n3ds_thread_body :: "N3Data \<Rightarrow> int \<Rightarrow> world \<Rightarrow> fault + (world \<times> action list)" where
  "n3ds_thread_body d buf_id w =
     (case wavebufs_at d buf_id of
        Inl f \<Rightarrow> Inl f
      | Inr buffer \<Rightarrow>
          (case wavebuf_objs w buffer of
             None \<Rightarrow> Inl (InvalidDeref buffer)
           | Some wb \<Rightarrow>
               (let wb' = wb\<lparr>nsamples := samplesPerWavebuf d\<rparr>
                in Inr (w\<lparr>wavebuf_objs := (wavebuf_objs w)(buffer \<mapsto> wb')\<rparr>,
                        [MixSigned16 (soloud d) (data_vaddr wb) (samplesPerWavebuf d),
                         NdspChnWaveBufAdd 0 buf_id buffer wb',
                         DSP_FlushDataCache (data_vaddr wb')
                           (samplesPerWavebuf d * numChannels d * 2)]))))"

text \<open>
  Modelled from the spec: \<^verbatim>\<open>LightEvent_Wait\<close> is libctru's, and what happens while
  the thread is suspended in it is the work of the other contexts. The spec allows them
  two things on the session: the shutdown path stores the flag (once, never back), and
  somebody signals the event, which the returning wait consumes. \<open>wake b\<close> is the
  session as the thread finds it when the wait returns, \<open>b\<close> telling whether shutdown
  was requested meanwhile.
\<close>

definition wake :: "bool \<Rightarrow> u32 \<Rightarrow> world \<Rightarrow> world" where
  "wake b a w =
     (case sessions w a of
        None \<Rightarrow> w
      | Some d \<Rightarrow> w\<lparr>sessions := (sessions w)(a \<mapsto> d\<lparr>done_flag := (done_flag d \<or> b), event := False\<rparr>)\<rparr>)"

text \<open>
  The loop of \<^verbatim>\<open>n3ds_thread\<close>. The schedule lists what each wait returns to; when it
  is used up the thread is still suspended in its last wait, the only place where the
  loop can stay for ever.
\<close>

datatype thread_status = Exited | Waiting | Crashed fault

fun n3ds_thread_loop :: "bool list \<Rightarrow> u32 \<Rightarrow> int \<Rightarrow> world \<Rightarrow> thread_status \<times> world \<times> action list" where
  "n3ds_thread_loop sched a buf_id w =
     (case sessions w a of
        None \<Rightarrow> (Crashed (InvalidDeref a), w, [])
      | Some d \<Rightarrow>
          if done_flag d then (Exited, w, [])
          else
            (case n3ds_thread_body d buf_id w of
               Inl f \<Rightarrow> (Crashed f, w, [])
             | Inr (w', acts) \<Rightarrow>
                 (case sched of
                    [] \<Rightarrow> (Waiting, w', acts @ [LightEvent_Wait a])
                  | b # bs \<Rightarrow>
                      (case n3ds_thread_loop bs a (buf_id XOR 1) (wake b a w') of
                         (st, w'', acts') \<Rightarrow> (st, w'', acts @ [LightEvent_Wait a] @ acts')))))"

definition n3ds_thread :: "bool list \<Rightarrow> u32 \<Rightarrow> world \<Rightarrow> thread_status \<times> world \<times> action list" where
  "n3ds_thread sched a w = n3ds_thread_loop sched a 0 w"

subsection \<open>Initialisation\<close>

text \<open>
  What the calls of \<^verbatim>\<open>n3ds_homebrew_init\<close> return: \<^verbatim>\<open>ndspInit()\<close>, the address
  \<^verbatim>\<open>new N3Data\<close> yields, the address \<^verbatim>\<open>linearAlloc\<close> yields (0 when it has
  no memory), the value \<^verbatim>\<open>svcGetThreadPriority\<close> stores into \<^verbatim>\<open>priority\<close> (\<open>None\<close>
  when it stores nothing and the initial \<^verbatim>\<open>0x30\<close> stays), and the handle
  \<^verbatim>\<open>threadCreate\<close> yields.
\<close>

record env =
  ndspInit_ret :: s32
  new_ret :: u32
  linearAlloc_ret :: u32
  svcGetThreadPriority_out :: "s32 option"
  threadCreate_ret :: u32

text \<open>\<^verbatim>\<open>memset(data, 0, sizeof(*data))\<close>.\<close>

definition zeroed_N3Data :: N3Data where
  "zeroed_N3Data =
     \<lparr>event = False, done_flag = False, samplesPerWavebuf = 0, numChannels = 0,
      soloud = 0, tid = 0, audioBuffer = 0, wavebufs = (0, 0)\<rparr>"

text \<open>Lines 175 to 181: the priority handed to \<^verbatim>\<open>threadCreate\<close>.\<close>

definition n3ds_priority :: "s32 option \<Rightarrow> s32" where
  "n3ds_priority out =
     (let priority0 = (case out of None \<Rightarrow> 0x30 | Some p \<Rightarrow> p);
          priority1 = priority0 - 1;
          priority2 = (if priority1 <s 0x18 then 0x18 else priority1);
          priority3 = (if 0x3F <s priority2 then 0x3F else priority2)
      in priority3)"

text \<open>
  Lines 156 to 162: the loop over the two elements of \<^verbatim>\<open>data->wavebufs\<close>. Each pass
  writes \<^verbatim>\<open>data_vaddr\<close> and \<^verbatim>\<open>status\<close> through the element, a pointer, and moves
  \<^verbatim>\<open>myBuffer\<close>, a pointer to 16-bit samples, by \<^verbatim>\<open>wavebufSize / sizeof(myBuffer[0])\<close>
  samples. The store is returned as it is when the loop ends or faults.
\<close>

fun init_wavebufs ::
  "u32 list \<Rightarrow> u32 \<Rightarrow> u32 \<Rightarrow> (u32 \<rightharpoonup> ndspWaveBuf) \<Rightarrow> (fault + unit) \<times> (u32 \<rightharpoonup> ndspWaveBuf)" where
  "init_wavebufs [] myBuffer wavebufSize h = (Inr (), h)"
| "init_wavebufs (waveBuf # rest) myBuffer wavebufSize h =
     (case h waveBuf of
        None \<Rightarrow> (Inl (InvalidDeref waveBuf), h)
      | Some wb \<Rightarrow>
          init_wavebufs rest (myBuffer + 2 * (wavebufSize div 2)) wavebufSize
            (h(waveBuf \<mapsto> wb\<lparr>data_vaddr := myBuffer, status := NDSP_WBUF_DONE\<rparr>)))"

text \<open>
  \<^verbatim>\<open>n3ds_homebrew_init(aSoloud, aFlags, aSamplerate, aBuffer, aChannels)\<close>.
  \<^verbatim>\<open>!ndspInit()\<close> holds when the call returns 0. The thread started by
  \<^verbatim>\<open>threadCreate\<close> runs \<open>n3ds_thread\<close> in its own context.
\<close>

definition n3ds_homebrew_init ::
  "env \<Rightarrow> u32 \<Rightarrow> u32 \<Rightarrow> u32 \<Rightarrow> u32 \<Rightarrow> u32 \<Rightarrow> world \<Rightarrow> (fault + result) \<times> world \<times> action list" where
  "n3ds_homebrew_init e aSoloud aFlags aSamplerate aBuffer aChannels w =
     (if aSamplerate \<noteq> 44100 \<or> aChannels \<noteq> 2 then (Inr INVALID_PARAMETER, w, [])
      else if ndspInit_ret e = 0 then (Inr UNKNOWN_ERROR, w, [NdspInit])
      else
        (let data = new_ret e;
             wavebufSize = aChannels * aBuffer * 2;
             bufferSize = wavebufSize * 2;
             d = zeroed_N3Data\<lparr>audioBuffer := linearAlloc_ret e, samplesPerWavebuf := aBuffer,
                                numChannels := aChannels, soloud := aSoloud\<rparr>;
             w1 = w\<lparr>sessions := (sessions w)(data \<mapsto> d)\<rparr>;
             acts = [NdspInit, NdspChnReset 0, NdspSetOutputMode NDSP_OUTPUT_STEREO,
                     NdspChnSetInterp 0 NDSP_INTERP_POLYPHASE, NdspChnSetRate 0 aSamplerate,
                     NdspChnSetFormat 0 NDSP_FORMAT_STEREO_PCM16,
                     New_N3Data data, LinearAlloc bufferSize]
         in case init_wavebufs [fst (wavebufs d), snd (wavebufs d)] (audioBuffer d) wavebufSize
                   (wavebuf_objs w1) of
              (Inl f, h) \<Rightarrow> (Inl f, w1\<lparr>wavebuf_objs := h\<rparr>, acts)
            | (Inr _, h) \<Rightarrow>
                (let w2 = w1\<lparr>wavebuf_objs := h\<rparr>;
                     w3 = w2\<lparr>engine := (engine w2)\<lparr>mBackendData := data,
                                                      mBackendCleanupFunc := Some N3ds_cleanup\<rparr>\<rparr>;
                     priority = n3ds_priority (svcGetThreadPriority_out e);
                     w4 = w3\<lparr>sessions := (sessions w3)(data \<mapsto> d\<lparr>tid := threadCreate_ret e\<rparr>)\<rparr>
                 in (Inr SO_NO_ERROR, w4,
                     acts @ [Store_mBackendData data,
                             Postinit_internal aSamplerate (samplesPerWavebuf d * aChannels)
                               aFlags aChannels,
                             NdspSetCallback data, SvcGetThreadPriority,
                             ThreadCreate data (32 * 1024) priority (- 1) False]))))"

subsection \<open>Reading a run\<close>

definition outcome :: "'r \<times> world \<times> action list \<Rightarrow> 'r" where
  "outcome r = fst r"

definition final :: "'r \<times> world \<times> action list \<Rightarrow> world" where
  "final r = fst (snd r)"

definition actions :: "'r \<times> world \<times> action list \<Rightarrow> action list" where
  "actions r = snd (snd r)"

text \<open>The indices of the descriptors queued, in the order of the calls.\<close>

fun submitted :: "action list \<Rightarrow> int list" where
  "submitted [] = []"
| "submitted (NdspChnWaveBufAdd c i p wb # xs) = i # submitted xs"
| "submitted (x # xs) = submitted xs"

text \<open>The descriptor pointers queued, in the order of the calls.\<close>

fun queued :: "action list \<Rightarrow> u32 list" where
  "queued [] = []"
| "queued (NdspChnWaveBufAdd c i p wb # xs) = p # queued xs"
| "queued (x # xs) = queued xs"

text \<open>The sequence \<open>b, b XOR 1, b, \<dots>\<close> of length \<open>n\<close>; from 0 it is 0, 1, 0, 1, \<dots>\<close>

fun alternating :: "int \<Rightarrow> nat \<Rightarrow> int list" where
  "alternating b 0 = []"
| "alternating b (Suc n) = b # alternating (b XOR 1) n"

text \<open>
  The passes a thread makes through the loop body when it starts with the flag clear and
  nothing faults: one, and one more for each wait that returns with the flag still clear.
\<close>

definition rounds :: "bool list \<Rightarrow> nat" where
  "rounds sched = Suc (length (takeWhile Not sched))"

text \<open>Both elements of \<^verbatim>\<open>data->wavebufs\<close> point to descriptors.\<close>

definition has_descriptors :: "N3Data \<Rightarrow> world \<Rightarrow> bool" where
  "has_descriptors d w =
     (wavebuf_objs w (fst (wavebufs d)) \<noteq> None \<and> wavebuf_objs w (snd (wavebufs d)) \<noteq> None)"

text \<open>
  The actions of the pass that uses \<^verbatim>\<open>wavebufs[i]\<close>, for a session \<open>d\<close> at \<open>a\<close>
  over the descriptors \<open>h\<close>, and the wait that ends it.
\<close>

definition cycle :: "u32 \<Rightarrow> N3Data \<Rightarrow> (u32 \<rightharpoonup> ndspWaveBuf) \<Rightarrow> int \<Rightarrow> action list" where
  "cycle a d h i =
     (let p = (if i = 0 then fst (wavebufs d) else snd (wavebufs d));
          wb = the (h p)
      in [MixSigned16 (soloud d) (data_vaddr wb) (samplesPerWavebuf d),
          NdspChnWaveBufAdd 0 i p (wb\<lparr>nsamples := samplesPerWavebuf d\<rparr>),
          DSP_FlushDataCache (data_vaddr wb) (samplesPerWavebuf d * numChannels d * 2),
          LightEvent_Wait a])"

text \<open>
  \<open>only_after P Q\<close>: an action with \<open>P\<close> occurs, and no action with \<open>Q\<close> occurs
  before the first of them.
\<close>

definition only_after :: "(action \<Rightarrow> bool) \<Rightarrow> (action \<Rightarrow> bool) \<Rightarrow> action list \<Rightarrow> bool" where
  "only_after P Q acts =
     (list_ex P acts \<and> list_all (\<lambda>x. \<not> Q x) (takeWhile (\<lambda>x. \<not> P x) acts))"

text \<open>The position of the first action with \<open>P\<close> (the length of the list when there is none).\<close>

definition first_index :: "(action \<Rightarrow> bool) \<Rightarrow> action list \<Rightarrow> nat" where
  "first_index P acts = length (takeWhile (\<lambda>x. \<not> P x) acts)"

fun is_render :: "action \<Rightarrow> bool" where
  "is_render (MixSigned16 _ _ _) = True"
| "is_render _ = False"

fun is_submit :: "action \<Rightarrow> bool" where
  "is_submit (NdspChnWaveBufAdd _ _ _ _) = True"
| "is_submit _ = False"

fun is_flush :: "action \<Rightarrow> bool" where
  "is_flush (DSP_FlushDataCache _ _) = True"
| "is_flush _ = False"




subsection \<open>Example states\<close>

text \<open>An engine without a session, in a store without objects.\<close>

definition world0 :: world where
  "world0 =
     \<lparr>engine = \<lparr>mBackendData = 0, mBackendCleanupFunc = None\<rparr>,
      sessions = Map.empty, wavebuf_objs = Map.empty, malloc_blocks = {}\<rparr>"

definition env0 :: env where
  "env0 =
     \<lparr>ndspInit_ret = 1, new_ret = 0x1000, linearAlloc_ret = 0x2000,
      svcGetThreadPriority_out = Some 0x30, threadCreate_ret = 7\<rparr>"

text \<open>
  A session at \<^verbatim>\<open>0x1000\<close> for 1024 samples per buffer whose two descriptors, at
  \<^verbatim>\<open>0x100\<close> and \<^verbatim>\<open>0x200\<close>, hold the halves of a block at \<^verbatim>\<open>0x2000\<close>.
\<close>

definition session1 :: N3Data where
  "session1 =
     \<lparr>event = False, done_flag = False, samplesPerWavebuf = 1024, numChannels = 2,
      soloud = 0x500, tid = 7, audioBuffer = 0x2000, wavebufs = (0x100, 0x200)\<rparr>"

definition world1 :: world where
  "world1 =
     \<lparr>engine = \<lparr>mBackendData = 0x1000, mBackendCleanupFunc = Some N3ds_cleanup\<rparr>,
      sessions = [0x1000 \<mapsto> session1],
      wavebuf_objs =
        [0x100 \<mapsto> \<lparr>data_vaddr = 0x2000, nsamples = 0, status = NDSP_WBUF_DONE\<rparr>,
         0x200 \<mapsto> \<lparr>data_vaddr = 0x3000, nsamples = 0, status = NDSP_WBUF_DONE\<rparr>],
      malloc_blocks = {}\<rparr>"

text \<open>The same after shutdown has been requested.\<close>

definition world1_done :: world where
  "world1_done = world1\<lparr>sessions := [0x1000 \<mapsto> session1\<lparr>done_flag := True\<rparr>]\<rparr>"

text \<open>
  A store with a descriptor at the null address: the only kind in which the descriptor
  loop of the initialisation does not fault.
\<close>

definition world_null :: world where
  "world_null =
     world0\<lparr>wavebuf_objs := [0 \<mapsto> \<lparr>data_vaddr = 0, nsamples = 0, status = NDSP_WBUF_FREE\<rparr>]\<rparr>"


section \<open>Properties\<close>

subsection \<open>Alternating sequences\<close>

lemma submitted_append: "submitted (xs @ ys) = submitted xs @ submitted ys"
  by (induction xs rule: submitted.induct) simp_all

lemma length_alternating: "length (alternating b n) = n"
  by (induction n arbitrary: b) simp_all

lemma xor_one_twice: "((b::int) XOR 1) XOR 1 = b"
  by (simp add: xor.assoc)

lemma alternating_nth:
  "i < n \<Longrightarrow> alternating b n ! i = (if even i then b else b XOR 1)"
proof (induction n arbitrary: b i)
  case 0
  then show ?case by simp
next
  case (Suc n)
  show ?case
  proof (cases i)
    case 0
    then show ?thesis by simp
  next
    case (Suc j)
    with Suc.prems have "j < n" by simp
    from Suc.IH [OF this, of "b XOR 1"] Suc show ?thesis
      by (simp add: xor_one_twice)
  qed
qed

lemma alternating_zero: "alternating 0 n = map (\<lambda>i. int (i mod 2)) [0..<n]"
proof (rule nth_equalityI)
  show "length (alternating 0 n) = length (map (\<lambda>i. int (i mod 2)) [0..<n])"
    by (simp add: length_alternating)
next
  fix i assume "i < length (alternating 0 n)"
  then have "i < n" by (simp add: length_alternating)
  then show "alternating 0 n ! i = map (\<lambda>i. int (i mod 2)) [0..<n] ! i"
    by (simp add: alternating_nth even_iff_mod_2_eq_zero odd_iff_mod_2_eq_one)
qed

subsection \<open>The producer loop, pass by pass\<close>

lemma body_submitted:
  "n3ds_thread_body d b w = Inr (w', acts) \<Longrightarrow> submitted acts = [b]"
  by (auto simp add: n3ds_thread_body_def Let_def split: sum.splits option.splits)

declare n3ds_thread_loop.simps [simp del]

lemma loop_submitted:
  "submitted (actions (n3ds_thread_loop sched a b w)) =
     alternating b (length (submitted (actions (n3ds_thread_loop sched a b w))))"
proof (induction sched arbitrary: b w)
  case Nil
  show ?case
    by (subst (1 2) n3ds_thread_loop.simps)
      (auto simp add: actions_def submitted_append dest: body_submitted split: option.splits sum.splits)
next
  case (Cons x xs)
  show ?case
  proof (cases "sessions w a")
    case None
    then show ?thesis by (simp add: n3ds_thread_loop.simps actions_def)
  next
    case (Some d)
    show ?thesis
    proof (cases "done_flag d")
      case True
      with Some show ?thesis by (simp add: n3ds_thread_loop.simps actions_def)
    next
      case False
      show ?thesis
      proof (cases "n3ds_thread_body d b w")
        case (Inl f)
        with Some False show ?thesis by (simp add: n3ds_thread_loop.simps actions_def)
      next
        case (Inr r)
        obtain w' acts where r: "r = (w', acts)" by (cases r)
        obtain st w'' acts' where rec: "n3ds_thread_loop xs a (b XOR 1) (wake x a w') = (st, w'', acts')"
          by (cases "n3ds_thread_loop xs a (b XOR 1) (wake x a w')")
        have eq: "n3ds_thread_loop (x # xs) a b w = (st, w'', acts @ [LightEvent_Wait a] @ acts')"
          using Some False Inr r rec by (subst n3ds_thread_loop.simps) simp
        have sub: "submitted acts = [b]"
          using Inr r by (auto dest: body_submitted)
        from Cons.IH [of "b XOR 1" "wake x a w'"] rec
        have "submitted acts' = alternating (b XOR 1) (length (submitted acts'))"
          by (simp add: actions_def)
        then show ?thesis
          by (simp add: eq actions_def submitted_append sub)
      qed
    qed
  qed
qed


lemma cycle_session_flags:
  "cycle a (d\<lparr>done_flag := x, event := y\<rparr>) h i = cycle a d h i"
  by (simp add: cycle_def)

lemma has_descriptors_session_flags:
  "has_descriptors (d\<lparr>done_flag := x, event := y\<rparr>) w = has_descriptors d w"
  by (simp add: has_descriptors_def)

lemma body_with_descriptors:
  assumes "has_descriptors d w" and "b = 0 \<or> b = 1"
  shows "\<exists>w'. n3ds_thread_body d b w = Inr (w', butlast (cycle a d (wavebuf_objs w) b))
    \<and> sessions w' = sessions w \<and> has_descriptors d w'
    \<and> (\<forall>i. cycle a d (wavebuf_objs w') i = cycle a d (wavebuf_objs w) i)"
proof -
  from assms obtain p wb where p: "wavebufs_at d b = Inr p" and wb: "wavebuf_objs w p = Some wb"
    and pdef: "p = (if b = 0 then fst (wavebufs d) else snd (wavebufs d))"
    by (auto simp add: has_descriptors_def wavebufs_at_def)
  let ?w' = "w\<lparr>wavebuf_objs := (wavebuf_objs w)(p \<mapsto> wb\<lparr>nsamples := samplesPerWavebuf d\<rparr>)\<rparr>"
  have 1: "n3ds_thread_body d b w = Inr (?w', butlast (cycle a d (wavebuf_objs w) b))"
    using p wb pdef by (simp add: n3ds_thread_body_def cycle_def Let_def)
  have 2: "sessions ?w' = sessions w" by simp
  have 3: "has_descriptors d ?w'"
    using assms(1) by (simp add: has_descriptors_def)
  have 4: "cycle a d (wavebuf_objs ?w') i = cycle a d (wavebuf_objs w) i" for i
    using wb by (simp add: cycle_def Let_def)
  from 1 2 3 4 show ?thesis by blast
qed

lemma cycle_butlast:
  "butlast (cycle a d h i) @ [LightEvent_Wait a] = cycle a d h i"
  by (simp add: cycle_def Let_def)

lemma xor_one_cases: "(b::int) = 0 \<or> b = 1 \<Longrightarrow> b XOR 1 = 0 \<or> b XOR 1 = 1"
  by auto

lemma wake_session:
  "sessions w a = Some d \<Longrightarrow>
     sessions (wake x a w) a = Some (d\<lparr>done_flag := (done_flag d \<or> x), event := False\<rparr>)
     \<and> wavebuf_objs (wake x a w) = wavebuf_objs w"
  by (simp add: wake_def)

lemma loop_with_descriptors:
  assumes "sessions w a = Some d" and "\<not> done_flag d" and "has_descriptors d w"
    and "b = 0 \<or> b = 1"
  shows "actions (n3ds_thread_loop sched a b w) =
           concat (map (cycle a d (wavebuf_objs w)) (alternating b (rounds sched)))
         \<and> outcome (n3ds_thread_loop sched a b w) = (if True \<in> set sched then Exited else Waiting)"
  using assms
proof (induction sched arbitrary: b w d)
  case Nil
  from Nil.prems(3,4) obtain w' where
    body: "n3ds_thread_body d b w = Inr (w', butlast (cycle a d (wavebuf_objs w) b))"
    using body_with_descriptors [of d w b a] by blast
  have "n3ds_thread_loop [] a b w = (Waiting, w', cycle a d (wavebuf_objs w) b)"
    using Nil.prems(1,2) body by (subst n3ds_thread_loop.simps) (simp add: cycle_butlast)
  then show ?case by (simp add: actions_def outcome_def rounds_def)
next
  case (Cons x xs)
  from Cons.prems(3,4) obtain w' where
    body: "n3ds_thread_body d b w = Inr (w', butlast (cycle a d (wavebuf_objs w) b))"
    and sess: "sessions w' = sessions w" and desc: "has_descriptors d w'"
    and cyc: "\<And>i. cycle a d (wavebuf_objs w') i = cycle a d (wavebuf_objs w) i"
    using body_with_descriptors [of d w b a] by blast
  let ?d = "d\<lparr>done_flag := (done_flag d \<or> x), event := False\<rparr>"
  let ?w = "wake x a w'"
  have ws: "sessions ?w a = Some ?d" and wh: "wavebuf_objs ?w = wavebuf_objs w'"
    using wake_session [of w' a d x] sess Cons.prems(1) by simp_all
  obtain st w'' acts' where rec: "n3ds_thread_loop xs a (b XOR 1) ?w = (st, w'', acts')"
    by (cases "n3ds_thread_loop xs a (b XOR 1) ?w")
  have "n3ds_thread_loop (x # xs) a b w =
          (st, w'', butlast (cycle a d (wavebuf_objs w) b) @ [LightEvent_Wait a] @ acts')"
    using Cons.prems(1,2) body rec
    by (subst n3ds_thread_loop.simps) simp
  then have eq: "n3ds_thread_loop (x # xs) a b w = (st, w'', cycle a d (wavebuf_objs w) b @ acts')"
    by (simp only: append_assoc [symmetric] cycle_butlast)
  show ?case
  proof (cases x)
    case True
    then have "n3ds_thread_loop xs a (b XOR 1) ?w = (Exited, ?w, [])"
      using ws by (subst n3ds_thread_loop.simps) simp
    with rec eq True show ?thesis
      by (simp add: actions_def outcome_def rounds_def)
  next
    case False
    have nd: "\<not> done_flag ?d" using False Cons.prems(2) by simp
    have hd: "has_descriptors ?d ?w"
      using desc wh by (simp add: has_descriptors_def)
    from Cons.IH [OF ws nd hd xor_one_cases [OF Cons.prems(4)]] rec
    have "acts' = concat (map (cycle a ?d (wavebuf_objs ?w)) (alternating (b XOR 1) (rounds xs)))"
      and "st = (if True \<in> set xs then Exited else Waiting)"
      by (simp_all add: actions_def outcome_def)
    moreover have "cycle a ?d (wavebuf_objs ?w) = cycle a d (wavebuf_objs w)"
    proof (rule ext)
      fix i
      show "cycle a ?d (wavebuf_objs ?w) i = cycle a d (wavebuf_objs w) i"
        using cyc [of i] by (simp add: wh cycle_session_flags)
    qed
    moreover have "rounds (x # xs) = Suc (rounds xs)"
      using False by (simp add: rounds_def)
    ultimately show ?thesis
      using eq False by (simp add: actions_def outcome_def)
  qed
qed

lemma submitted_cycle: "submitted (cycle a d h i) = [i]"
  by (simp add: cycle_def Let_def)

lemma submitted_cycles: "submitted (concat (map (cycle a d h) ids)) = ids"
  by (induction ids) (simp_all add: submitted_append submitted_cycle)



lemma world1_session: "sessions world1 0x1000 = Some session1"
  by (simp add: world1_def)

lemma session1_running: "\<not> done_flag session1"
  by (simp add: session1_def)

lemma world1_descriptors: "has_descriptors session1 world1"
  by (simp add: has_descriptors_def world1_def session1_def)

lemma queued_append: "queued (xs @ ys) = queued xs @ queued ys"
  by (induction xs rule: queued.induct) simp_all

lemma queued_cycles:
  "queued (concat (map (cycle a d h) ids)) =
     map (\<lambda>i. if i = 0 then fst (wavebufs d) else snd (wavebufs d)) ids"
  by (induction ids) (simp_all add: queued_append cycle_def Let_def)





lemma thread_with_descriptors:
  assumes "sessions w a = Some d" and "\<not> done_flag d" and "has_descriptors d w"
  shows "actions (n3ds_thread sched a w) =
           concat (map (cycle a d (wavebuf_objs w)) (alternating 0 (rounds sched)))"
  unfolding n3ds_thread_def using loop_with_descriptors [of w a d 0 sched] assms by simp

subsection \<open>Buffer alternation\<close>

text \<open>
  Claim C1. For the whole life of the producer loop the indices of the buffers handed to
  the hardware queue are 0, 1, 0, 1, \<dots> from index 0: none twice in a row, none skipped.
  This holds of every run, whatever the session, the schedule and the store, and of runs
  that fault as well: the indices queued so far are always an initial piece of that
  sequence. When the session has its two descriptors and the flag is clear at the start,
  one buffer is queued in each pass, and the pointer queued in pass \<open>k\<close> is the element
  \<open>k mod 2\<close> of \<^verbatim>\<open>data->wavebufs\<close>.
\<close>

theorem producer_submits_alternately:
  "submitted (actions (n3ds_thread sched a w)) =
     map (\<lambda>k. int (k mod 2)) [0..<length (submitted (actions (n3ds_thread sched a w)))]
   \<and> (sessions w a = Some d \<and> \<not> done_flag d \<and> has_descriptors d w \<longrightarrow>
        submitted (actions (n3ds_thread sched a w)) = map (\<lambda>k. int (k mod 2)) [0..<rounds sched]
        \<and> queued (actions (n3ds_thread sched a w)) =
            map (\<lambda>k. if even k then fst (wavebufs d) else snd (wavebufs d)) [0..<rounds sched])"
proof
  show "submitted (actions (n3ds_thread sched a w)) =
     map (\<lambda>k. int (k mod 2)) [0..<length (submitted (actions (n3ds_thread sched a w)))]"
    unfolding n3ds_thread_def
    by (subst loop_submitted) (simp only: alternating_zero length_map length_upt diff_zero)
next
  show "sessions w a = Some d \<and> \<not> done_flag d \<and> has_descriptors d w \<longrightarrow>
        submitted (actions (n3ds_thread sched a w)) = map (\<lambda>k. int (k mod 2)) [0..<rounds sched]
        \<and> queued (actions (n3ds_thread sched a w)) =
            map (\<lambda>k. if even k then fst (wavebufs d) else snd (wavebufs d)) [0..<rounds sched]"
  proof
    assume h: "sessions w a = Some d \<and> \<not> done_flag d \<and> has_descriptors d w"
    then have acts: "actions (n3ds_thread sched a w) =
        concat (map (cycle a d (wavebuf_objs w)) (alternating 0 (rounds sched)))"
      by (simp add: thread_with_descriptors)
    have 1: "submitted (actions (n3ds_thread sched a w)) = map (\<lambda>k. int (k mod 2)) [0..<rounds sched]"
      by (simp only: acts submitted_cycles alternating_zero)
    have 2: "queued (actions (n3ds_thread sched a w)) =
            map (\<lambda>k. if even k then fst (wavebufs d) else snd (wavebufs d)) [0..<rounds sched]"
      by (simp only: acts queued_cycles alternating_zero) (simp add: even_iff_mod_2_eq_zero)
    from 1 2 show "submitted (actions (n3ds_thread sched a w)) = map (\<lambda>k. int (k mod 2)) [0..<rounds sched]
        \<and> queued (actions (n3ds_thread sched a w)) =
            map (\<lambda>k. if even k then fst (wavebufs d) else snd (wavebufs d)) [0..<rounds sched]"
      by blast
  qed
qed

text \<open>
  A run of two passes over the example session queues buffer 0, the descriptor at
  \<^verbatim>\<open>0x100\<close>, then buffer 1, the descriptor at \<^verbatim>\<open>0x200\<close>.
\<close>

theorem producer_submits_alternately_witness:
  "sessions world1 0x1000 = Some session1 \<and> \<not> done_flag session1
   \<and> has_descriptors session1 world1
   \<and> submitted (actions (n3ds_thread [False, True] 0x1000 world1)) = [0, 1]
   \<and> queued (actions (n3ds_thread [False, True] 0x1000 world1)) = [0x100, 0x200]"
proof -
  let ?acts = "actions (n3ds_thread [False, True] 0x1000 world1)"
  note t = producer_submits_alternately [of "[False, True]" "0x1000" world1 session1]
  from t world1_session session1_running world1_descriptors
  have s: "submitted ?acts = map (\<lambda>k. int (k mod 2)) [0..<rounds [False, True]]"
    and q: "queued ?acts =
      map (\<lambda>k. if even k then fst (wavebufs session1) else snd (wavebufs session1))
        [0..<rounds [False, True]]"
    by blast+
  have r: "[0..<rounds [False, True]] = [0, Suc 0]"
    by (simp add: rounds_def upt_rec)
  from s r have "submitted ?acts = [0, 1]"
    by simp
  moreover from q r have "queued ?acts = [0x100, 0x200]"
    by (simp add: session1_def)
  ultimately show ?thesis
    using world1_session session1_running world1_descriptors by simp
qed

subsection \<open>Order within a pass\<close>

text \<open>
  Claim C5, as the code has it. The claim puts the flush of the rendered buffer between
  the render and the submission. In the code each pass renders into the buffer, stores the
  sample count, queues the descriptor and only then flushes the buffer's region, before
  the index toggles and the thread waits: for a session with its two descriptors the
  actions of a run are the passes \<open>cycle\<close> one after the other, and in each of them
  the render comes first, the submission second, the flush third, the wait last.
\<close>

theorem producer_pass_order:
  assumes "sessions w a = Some d" and "\<not> done_flag d" and "has_descriptors d w"
  shows "actions (n3ds_thread sched a w) =
           concat (map (cycle a d (wavebuf_objs w)) (alternating 0 (rounds sched)))
         \<and> first_index is_render (cycle a d (wavebuf_objs w) i) = 0
         \<and> first_index is_submit (cycle a d (wavebuf_objs w) i) = 1
         \<and> first_index is_flush (cycle a d (wavebuf_objs w) i) = 2
         \<and> length (cycle a d (wavebuf_objs w) i) = 4"
proof -
  have "actions (n3ds_thread sched a w) =
      concat (map (cycle a d (wavebuf_objs w)) (alternating 0 (rounds sched)))"
    unfolding n3ds_thread_def using loop_with_descriptors [of w a d 0 sched] assms by simp
  then show ?thesis
    by (simp add: cycle_def first_index_def Let_def)
qed

text \<open>Two passes over the example session.\<close>

theorem producer_pass_order_witness:
  "sessions world1 0x1000 = Some session1 \<and> \<not> done_flag session1
   \<and> has_descriptors session1 world1
   \<and> actions (n3ds_thread [False, True] 0x1000 world1) =
       concat (map (cycle 0x1000 session1 (wavebuf_objs world1)) (alternating 0 (rounds [False, True])))"
  using producer_pass_order [OF world1_session session1_running world1_descriptors, of "[False, True]" 0]
    world1_session session1_running world1_descriptors
  by simp

text \<open>
  The claim as stated fails on a single pass over the example session: the submission is
  the second action of the run and the flush the third.
\<close>

theorem flush_follows_submission_counterexample:
  "first_index is_submit (actions (n3ds_thread [] 0x1000 world1)) = 1
   \<and> first_index is_flush (actions (n3ds_thread [] 0x1000 world1)) = 2"
  by (simp add: n3ds_thread_def n3ds_thread_loop.simps n3ds_thread_body_def wavebufs_at_def
      world1_def session1_def actions_def first_index_def Let_def)

subsection \<open>The completion callback\<close>

lemma world1_done_session:
  "sessions world1_done 0x1000 = Some (session1\<lparr>done_flag := True\<rparr>)"
  by (simp add: world1_done_def)

text \<open>
  Claim C2. For every invocation of the completion callback on a session: when the
  shutdown flag is set the callback returns at once, leaves the world as it was and
  performs no action (it does not signal the event); otherwise it returns having signalled
  the event of that session, its one action, and the world differs in nothing else.
\<close>

theorem callback_signals_unless_shutting_down:
  assumes "sessions w a = Some d"
  shows "(done_flag d \<longrightarrow> n3ds_audioCallback a w = (Inr (), w, []))
       \<and> (\<not> done_flag d \<longrightarrow>
            n3ds_audioCallback a w =
              (Inr (), w\<lparr>sessions := (sessions w)(a \<mapsto> d\<lparr>event := True\<rparr>)\<rparr>,
               [LightEvent_Signal a]))"
  using assms by (simp add: n3ds_audioCallback_def signalWake_def)

text \<open>The example session, after shutdown was requested and before.\<close>

theorem callback_signals_unless_shutting_down_witness:
  "sessions world1_done 0x1000 = Some (session1\<lparr>done_flag := True\<rparr>)
   \<and> done_flag (session1\<lparr>done_flag := True\<rparr>)
   \<and> n3ds_audioCallback 0x1000 world1_done = (Inr (), world1_done, [])
   \<and> sessions world1 0x1000 = Some session1
   \<and> \<not> done_flag session1
   \<and> actions (n3ds_audioCallback 0x1000 world1) = [LightEvent_Signal 0x1000]"
  using callback_signals_unless_shutting_down [OF world1_done_session]
    callback_signals_unless_shutting_down [OF world1_session]
    world1_done_session world1_session session1_running
  by (simp add: actions_def)

subsection \<open>Shutdown\<close>

lemma world1_backend: "mBackendData (engine world1) = 0x1000"
  by (simp add: world1_def)

lemma world0_backend: "mBackendData (engine world0) = 0"
  by (simp add: world0_def)

text \<open>
  Claim C3, as the code has it. When shutdown runs with an existing session it stores the
  shutdown flag, signals the event and joins the producer thread with no time limit, in
  this order and before anything else: no release of the session's memory and no clearing
  of the engine's reference is attempted before the join. It calls nothing in the hardware
  subsystem: the completion callback stays registered. The claim's other condition, that
  the hardware has been told to stop delivering callbacks before the memory goes, has no
  counterpart in the code. What becomes of the releases is left to claim C7.
\<close>

theorem cleanup_joins_before_releasing:
  assumes "mBackendData (engine w) = a" and "a \<noteq> 0" and "sessions w a = Some d"
  shows "take 3 (actions (n3ds_cleanup w)) =
           [Store_done a, LightEvent_Signal a, ThreadJoin (tid d) UINT64_MAX]
       \<and> only_after is_join is_teardown (actions (n3ds_cleanup w))
       \<and> filter is_ndsp_call (actions (n3ds_cleanup w)) = []"
  using assms
  by (simp add: n3ds_cleanup_def actions_def only_after_def Let_def)

text \<open>Shutdown of the example session.\<close>

theorem cleanup_joins_before_releasing_witness:
  "mBackendData (engine world1) = 0x1000 \<and> (0x1000 :: u32) \<noteq> 0
   \<and> sessions world1 0x1000 = Some session1
   \<and> take 3 (actions (n3ds_cleanup world1)) =
        [Store_done 0x1000, LightEvent_Signal 0x1000, ThreadJoin (tid session1) UINT64_MAX]
   \<and> only_after is_join is_teardown (actions (n3ds_cleanup world1))"
proof -
  have nz: "(0x1000 :: u32) \<noteq> 0" by simp
  from cleanup_joins_before_releasing [OF world1_backend nz world1_session]
    world1_backend nz world1_session
  show ?thesis by blast
qed

text \<open>
  The claim as stated fails on the example session: after the join the run goes on to
  the releases, with the call of \<^verbatim>\<open>free\<close> of line 94, and no call to the hardware
  subsystem comes before it (there is none in the run).
\<close>

theorem cleanup_without_hardware_stop_counterexample:
  "list_ex is_release (actions (n3ds_cleanup world1))
   \<and> filter is_ndsp_call (actions (n3ds_cleanup world1)) = []
   \<and> \<not> only_after is_ndsp_call is_release (actions (n3ds_cleanup world1))"
  by (simp add: n3ds_cleanup_def world1_def session1_def actions_def only_after_def Let_def)

text \<open>
  Claim C7, on the code. The claim expects the first of two calls to release the session
  and clear the engine's reference, and the second to find no session and do nothing. A
  call without a session does nothing, as the guard of line 79 has it. But a call with a
  session does not get as far as clearing the reference: after the join, line 94 hands
  \<^verbatim>\<open>free\<close> the array member \<^verbatim>\<open>data->wavebufs\<close> of the session record, which is no
  heap block, and the call faults there. The record is not deleted, the sample block not
  freed, and the engine still refers to the session.
\<close>

theorem cleanup_first_call_faults:
  "(mBackendData (engine w) = 0 \<longrightarrow> n3ds_cleanup w = (Inr (), w, []))
   \<and> (mBackendData (engine w) \<noteq> 0 \<and> sessions w (mBackendData (engine w)) = Some d \<longrightarrow>
        outcome (n3ds_cleanup w) = Inl (InvalidFree (Wavebufs_member (mBackendData (engine w))))
        \<and> actions (n3ds_cleanup w) =
            [Store_done (mBackendData (engine w)), LightEvent_Signal (mBackendData (engine w)),
             ThreadJoin (tid d) UINT64_MAX, Free_wavebufs (mBackendData (engine w))]
        \<and> mBackendData (engine (final (n3ds_cleanup w))) = mBackendData (engine w)
        \<and> sessions (final (n3ds_cleanup w)) (mBackendData (engine w)) =
            Some (d\<lparr>done_flag := True, event := True\<rparr>)
        \<and> malloc_blocks (final (n3ds_cleanup w)) = malloc_blocks w)"
  by (simp add: n3ds_cleanup_def outcome_def actions_def final_def signalWake_def Let_def)

text \<open>The engine without a session, and the example session.\<close>

theorem cleanup_first_call_faults_witness:
  "mBackendData (engine world0) = 0 \<and> n3ds_cleanup world0 = (Inr (), world0, [])
   \<and> mBackendData (engine world1) \<noteq> 0
   \<and> sessions world1 (mBackendData (engine world1)) = Some session1
   \<and> outcome (n3ds_cleanup world1) = Inl (InvalidFree (Wavebufs_member 0x1000))
   \<and> mBackendData (engine (final (n3ds_cleanup world1))) = 0x1000"
proof -
  have nz: "mBackendData (engine world1) \<noteq> 0"
    by (simp add: world1_backend)
  have se: "sessions world1 (mBackendData (engine world1)) = Some session1"
    by (simp add: world1_backend world1_session)
  from cleanup_first_call_faults [of world0] world0_backend
  have 1: "n3ds_cleanup world0 = (Inr (), world0, [])"
    by blast
  from cleanup_first_call_faults [of world1 session1] nz se
  have 2: "outcome (n3ds_cleanup world1) = Inl (InvalidFree (Wavebufs_member (mBackendData (engine world1))))"
    and 3: "mBackendData (engine (final (n3ds_cleanup world1))) = mBackendData (engine world1)"
    by blast+
  from 1 2 3 nz se world0_backend show ?thesis
    by (simp add: world1_backend)
qed

subsection \<open>Initialisation\<close>

text \<open>
  Claim C6. For every call of the initialisation with a sample rate other than 44100 or a
  channel count other than 2, the call returns \<^verbatim>\<open>INVALID_PARAMETER\<close>, performs no
  action (no hardware call, no allocation) and leaves the world, the engine's backend
  state included, exactly as it was.
\<close>

theorem init_rejects_unsupported_configuration:
  assumes "aSamplerate \<noteq> 44100 \<or> aChannels \<noteq> 2"
  shows "n3ds_homebrew_init e aSoloud aFlags aSamplerate aBuffer aChannels w =
           (Inr INVALID_PARAMETER, w, [])"
  using assms by (simp add: n3ds_homebrew_init_def)

text \<open>A rate of 48000, and one channel.\<close>

theorem init_rejects_unsupported_configuration_witness:
  "(48000 :: u32) \<noteq> 44100
   \<and> n3ds_homebrew_init env0 0x500 0 48000 1024 2 world0 = (Inr INVALID_PARAMETER, world0, [])
   \<and> (1 :: u32) \<noteq> 2
   \<and> n3ds_homebrew_init env0 0x500 0 44100 1024 1 world0 = (Inr INVALID_PARAMETER, world0, [])"
proof -
  have 1: "(48000 :: u32) \<noteq> 44100" and 2: "(1 :: u32) \<noteq> 2"
    by simp_all
  from 1 have r: "(48000 :: u32) \<noteq> 44100 \<or> (2 :: u32) \<noteq> 2" ..
  from 2 have c: "(44100 :: u32) \<noteq> 44100 \<or> (1 :: u32) \<noteq> 2" ..
  from init_rejects_unsupported_configuration [OF r]
    init_rejects_unsupported_configuration [OF c] 1 2
  show ?thesis by blast
qed

text \<open>
  Claim C4, on the code. The claim expects two descriptor records after a successful
  initialisation, one for each half of the sample block, with status done. The code
  never allocates a descriptor: \<^verbatim>\<open>memset\<close> leaves both elements of
  \<^verbatim>\<open>data->wavebufs\<close> null, and the loop of lines 157 to 162 writes through them. With
  supported parameters and \<^verbatim>\<open>ndspInit\<close> accepted, in a store with no object at the
  null address, the call faults on the first of these writes; the session it has built by
  then holds two null descriptor pointers, no descriptor has been written and the engine
  has not been given the session.
\<close>

theorem init_descriptor_pointers_null:
  assumes "ndspInit_ret e \<noteq> 0" and "wavebuf_objs w 0 = None"
  shows "outcome (n3ds_homebrew_init e s f 44100 n 2 w) = Inl (InvalidDeref 0)
       \<and> map_option wavebufs (sessions (final (n3ds_homebrew_init e s f 44100 n 2 w)) (new_ret e))
           = Some (0, 0)
       \<and> wavebuf_objs (final (n3ds_homebrew_init e s f 44100 n 2 w)) = wavebuf_objs w
       \<and> engine (final (n3ds_homebrew_init e s f 44100 n 2 w)) = engine w"
  using assms
  by (simp add: n3ds_homebrew_init_def outcome_def final_def Let_def zeroed_N3Data_def)

text \<open>The example call in the empty store.\<close>

theorem init_descriptor_pointers_null_witness:
  "ndspInit_ret env0 \<noteq> 0 \<and> wavebuf_objs world0 0 = None
   \<and> outcome (n3ds_homebrew_init env0 0x500 0 44100 1024 2 world0) = Inl (InvalidDeref 0)"
proof -
  have 1: "ndspInit_ret env0 \<noteq> 0" by (simp add: env0_def)
  have 2: "wavebuf_objs world0 0 = None" by (simp add: world0_def)
  from init_descriptor_pointers_null [OF 1 2] 1 2 show ?thesis by blast
qed


text \<open>
  Claim C10, on the code. The claim expects a call with supported parameters and
  \<^verbatim>\<open>ndspInit\<close> accepted to return success also when \<^verbatim>\<open>linearAlloc\<close> has no
  memory. The result of the allocation is indeed never looked at, and the outcome is the
  same whatever the allocation returns; but the call returns success only in a store with
  a descriptor at the null address. Everywhere else it faults in the descriptor loop
  before it reaches \<^verbatim>\<open>return 0\<close>.
\<close>

theorem init_outcome_without_memory:
  assumes "ndspInit_ret e \<noteq> 0"
  shows "outcome (n3ds_homebrew_init (e\<lparr>linearAlloc_ret := 0\<rparr>) s f 44100 n 2 w) =
           (if wavebuf_objs w 0 = None then Inl (InvalidDeref 0) else Inr SO_NO_ERROR)
       \<and> outcome (n3ds_homebrew_init (e\<lparr>linearAlloc_ret := x\<rparr>) s f 44100 n 2 w) =
           outcome (n3ds_homebrew_init (e\<lparr>linearAlloc_ret := 0\<rparr>) s f 44100 n 2 w)"
  using assms
  by (simp add: n3ds_homebrew_init_def outcome_def Let_def zeroed_N3Data_def
      split: option.splits)

lemma env0_accepts: "ndspInit_ret env0 \<noteq> 0"
  by (simp add: env0_def)

lemma world_null_object:
  "wavebuf_objs world_null 0 = Some \<lparr>data_vaddr = 0, nsamples = 0, status = NDSP_WBUF_FREE\<rparr>"
  by (simp add: world_null_def)

text \<open>The example call without sample memory, in the empty store and with a descriptor at null.\<close>

theorem init_outcome_without_memory_witness:
  "ndspInit_ret env0 \<noteq> 0
   \<and> wavebuf_objs world0 0 = None
   \<and> outcome (n3ds_homebrew_init (env0\<lparr>linearAlloc_ret := 0\<rparr>) 0x500 0 44100 1024 2 world0) =
       Inl (InvalidDeref 0)
   \<and> wavebuf_objs world_null 0 \<noteq> None
   \<and> outcome (n3ds_homebrew_init (env0\<lparr>linearAlloc_ret := 0\<rparr>) 0x500 0 44100 1024 2 world_null) =
       Inr SO_NO_ERROR"
proof -
  have 1: "wavebuf_objs world0 0 = None"
    by (simp add: world0_def)
  have 2: "wavebuf_objs world_null 0 \<noteq> None"
    by (simp add: world_null_object)
  from init_outcome_without_memory [OF env0_accepts, of "0x500" 0 1024 world0] 1
  have a: "outcome (n3ds_homebrew_init (env0\<lparr>linearAlloc_ret := 0\<rparr>) 0x500 0 44100 1024 2 world0) =
       Inl (InvalidDeref 0)"
    by simp
  from init_outcome_without_memory [OF env0_accepts, of "0x500" 0 1024 world_null] 2
  have b: "outcome (n3ds_homebrew_init (env0\<lparr>linearAlloc_ret := 0\<rparr>) 0x500 0 44100 1024 2 world_null) =
       Inr SO_NO_ERROR"
    by simp
  from env0_accepts 1 2 a b show ?thesis by blast
qed

subsection \<open>The priority of the producer thread\<close>





subsection \<open>Sizes within a pass\<close>






end
